theory Spec2Isabelle
  imports Main "HOL-Library.AList"
begin

section \<open>Change-detection strategies of \<open>cd-aware/strategy.ts\<close>\<close>

text \<open>
  The embedding follows \<open>src/libs/ngrx-component-experiments/src/lib/core/cd-aware/strategy.ts\<close>.
  The module reads ambient globals, keeps one module-level variable and calls into the host
  framework; all of that is gathered in one explicit \<open>world\<close> that effectful functions take and
  return. Closures of the source become HOL functions that capture the values the source
  captures.
\<close>

subsection \<open>Time, notifications and observables\<close>

text \<open>
  A timeline lists what happens on one subscription, in order: notifications, the two terminal
  signals, and the scheduling boundaries of the host event loop (an animation frame starts, the
  microtask queue is flushed). A cold \<open>Observable\<close> is a function of the world it is subscribed in;
  it delivers a timeline and leaves a world behind.
\<close>

datatype cadence = AnimationFrame | Microtask

datatype 'a event = Next 'a | Boundary cadence | Complete | Error string

type_synonym ('a, 'w) Observable = "'w \<Rightarrow> 'a event list \<times> 'w"

text \<open>A tick stream is an object: \<open>streamId\<close> is its identity, \<open>fires\<close> the boundary it ticks at.\<close>

record tick_stream =
  streamId :: nat
  fires :: cadence

subsection \<open>The host and the ambient globals\<close>

text \<open>
  \<open>ChangeDetectorRef\<close>: the two fields read through \<open>(cfg.cdRef as any)\<close> are \<open>_lView\<close> and
  \<open>context\<close>; both hold values of type \<open>any\<close>.
\<close>

record 'k ChangeDetectorRef =
  cdr_lView :: 'k
  cdr_context :: 'k

record ('m, 'k) StrategyFactoryConfig =
  component :: 'm
  cdRef :: "'k ChangeDetectorRef"

text \<open>
  The four render primitives of the host: \<open>cdRef.markForCheck()\<close>, \<open>cdRef.detectChanges()\<close>,
  and the component-level \<open>markDirty(component)\<close>, \<open>detectChanges(component)\<close> imported from
  \<open>@angular/core\<close>. The host is opaque; a call is recorded in the order it is made.
  Subscribing to a tick stream is recorded in the same way, in \<open>tickSubscriptions\<close>: the stream
  subscribed to, and the context on whose behalf the subscription was opened.
\<close>

datatype ('m, 'k) host_call =
    CdRef_markForCheck "'k ChangeDetectorRef"
  | CdRef_detectChanges "'k ChangeDetectorRef"
  | Ivy_markDirty 'm
  | Ivy_detectChanges 'm

datatype promise = ZoneSymbolPromise | AmbientPromise

datatype js_error = TypeError

record ('m, 'k) world =
  viewEngineIvy :: bool
  zoneSymbols :: "string list"
  resolvedPromise :: "promise option"
  tickStreams :: nat
  hostCalls :: "('m, 'k) host_call list"
  tickSubscriptions :: "(nat \<times> 'k) list"

text \<open>
  Modelled from the spec: \<open>isViewEngineIvy\<close>, \<open>apiZonePatched\<close> and \<open>getGlobalThis\<close> are imported
  from \<open>@ts-etc\<close> and their code is missing. \<open>isViewEngineIvy\<close> is "a boolean/flag indicating which
  host-engine variant is active"; \<open>apiZonePatched\<close> is the "boolean-producing check: is the ambient
  promise/task scheduler monkey-patched for interception", that is whether the global object
  carries the zone symbol of the named API. \<open>viewEngineIvy\<close> and \<open>zoneSymbols\<close> hold what the two
  checks would answer in a given world.
\<close>

definition isViewEngineIvy :: "('m, 'k) world \<Rightarrow> bool" where
  "isViewEngineIvy w = viewEngineIvy w"

definition apiZonePatched :: "string \<Rightarrow> ('m, 'k) world \<Rightarrow> bool" where
  "apiZonePatched api w = (api \<in> set (zoneSymbols w))"

text \<open>
  Modelled from the spec: \<open>generateFrames\<close> is imported from \<open>../rxjs/observable\<close> and its code is
  missing. It is the frame-based tick source, "fires once per display-refresh cycle", and "each
  call to the factory yields an independent, restartable tick source (not a shared singleton)":
  a call constructs a new stream object, which ticks at animation frames.
\<close>

definition generateFrames :: "('m, 'k) world \<Rightarrow> tick_stream \<times> ('m, 'k) world" where
  "generateFrames w =
     (\<lparr>streamId = tickStreams w, fires = AnimationFrame\<rparr>, w\<lparr>tickStreams := Suc (tickStreams w)\<rparr>)"

subsection \<open>The duration selector\<close>

text \<open>
  \<open>getResolvedPromise\<close>. In JavaScript \<open>a || b ? c : d\<close> is \<open>(a || b) ? c : d\<close>, and \<open>||\<close> does not
  evaluate \<open>b\<close> when \<open>a\<close> is truthy. Reading \<open>.resolve\<close> of an absent \<open>__zone_symbol__Promise\<close>
  raises; the assignment is then not reached.
\<close>

definition getResolvedPromise :: "('m, 'k) world \<Rightarrow> js_error + promise \<times> ('m, 'k) world" where
  "getResolvedPromise w =
     (if resolvedPromise w \<noteq> None \<or> apiZonePatched ''Promise'' w
      then (if ''Promise'' \<in> set (zoneSymbols w)
            then Inr (ZoneSymbolPromise, w\<lparr>resolvedPromise := Some ZoneSymbolPromise\<rparr>)
            else Inl TypeError)
      else Inr (AmbientPromise, w\<lparr>resolvedPromise := Some AmbientPromise\<rparr>))"

text \<open>\<open>getZoneUnPatchedDurationSelector\<close> returns the closure \<open>() => generateFrames()\<close>.\<close>

definition getZoneUnPatchedDurationSelector ::
  "unit \<Rightarrow> ('m, 'k) world \<Rightarrow> tick_stream \<times> ('m, 'k) world" where
  "getZoneUnPatchedDurationSelector u = (\<lambda>w. generateFrames w)"

subsection \<open>Strategies\<close>

record ('a, 'm, 'k) CdStrategy =
  behaviour :: "unit \<Rightarrow> ('a, ('m, 'k) world) Observable \<Rightarrow> ('a, ('m, 'k) world) Observable"
  render :: "('m, 'k) world \<Rightarrow> ('m, 'k) world"
  name :: string

definition DEFAULT_STRATEGY_NAME :: string where
  "DEFAULT_STRATEGY_NAME = ''local''"

definition hostCall :: "('m, 'k) host_call \<Rightarrow> ('m, 'k) world \<Rightarrow> ('m, 'k) world" where
  "hostCall c w = w\<lparr>hostCalls := hostCalls w @ [c]\<rparr>"

definition createNativeStrategy ::
  "('m, 'k) StrategyFactoryConfig \<Rightarrow> ('a, 'm, 'k) CdStrategy" where
  "createNativeStrategy config =
     \<lparr>behaviour = (\<lambda>u. \<lambda>o'. o'),
      render = (\<lambda>w. hostCall (CdRef_markForCheck (cdRef config)) w),
      name = ''native''\<rparr>"

text \<open>\<open>createNoopStrategy(cfg?: any)\<close>: the argument may be left out (\<open>None\<close>).\<close>

definition createNoopStrategy :: "'x option \<Rightarrow> ('a, 'm, 'k) CdStrategy" where
  "createNoopStrategy cfg =
     \<lparr>behaviour = (\<lambda>u. \<lambda>o'. o'),
      render = (\<lambda>w. w),
      name = ''noop''\<rparr>"

definition createGlobalStrategy ::
  "('m, 'k) StrategyFactoryConfig \<Rightarrow> ('m, 'k) world \<Rightarrow> ('a, 'm, 'k) CdStrategy" where
  "createGlobalStrategy cfg w0 =
     (let inIvy = isViewEngineIvy w0 in
      \<lparr>behaviour = (\<lambda>u. \<lambda>o'. o'),
       render = (\<lambda>w. if \<not> inIvy then hostCall (CdRef_markForCheck (cdRef cfg)) w
                      else hostCall (Ivy_markDirty (component cfg)) w),
       name = ''global''\<rparr>)"

subsection \<open>The coalescing operator\<close>

record 'k CoalesceConfig =
  "context" :: 'k

text \<open>
  Modelled from the spec: \<open>coalesce\<close> and \<open>CoalesceConfig\<close> are imported from \<open>../rxjs/operators\<close>
  and their code is missing. The operator follows section 4.2 of the specification. Its state is
  the map of pending entries, kept in arrival order, each holding "the single latest Notification
  received for that Context" and the tick stream the entry waits on; \<open>terminated\<close> is set once a
  terminal signal went downstream.
  \<^item> A notification for a context without entry creates one and starts "a DurationSelector tick
    subscription scoped to this entry": a tick stream is taken from the duration selector and
    subscribed to on behalf of the context. For a context with an entry the notification
    overwrites the stored value and leaves the tick subscription alone.
  \<^item> When a boundary arrives, the entries whose tick stream fires at it are forwarded and deleted.
  \<^item> Completion forwards every pending value, then completes. Failure is propagated at once
    and the pending entries are discarded.
  The operator works on notifications paired with their context; boundaries go through
  unchanged, since time is the same upstream and downstream.
\<close>

record ('c, 'a) CoalesceState =
  pending :: "('c \<times> 'a \<times> tick_stream) list"
  terminated :: bool

definition coalesceInit :: "('c, 'a) CoalesceState" where
  "coalesceInit = \<lparr>pending = [], terminated = False\<rparr>"

definition subscribeTick :: "tick_stream \<Rightarrow> 'k \<Rightarrow> ('m, 'k) world \<Rightarrow> ('m, 'k) world" where
  "subscribeTick t c w = w\<lparr>tickSubscriptions := tickSubscriptions w @ [(streamId t, c)]\<rparr>"

definition forwarded :: "('c \<times> 'a \<times> tick_stream) list \<Rightarrow> ('c \<times> 'a) event list" where
  "forwarded es = map (\<lambda>(c, n, t). Next (c, n)) es"

fun coalesceStep ::
  "(('m, 'k) world \<Rightarrow> tick_stream \<times> ('m, 'k) world) \<Rightarrow> ('k \<times> 'a) event
     \<Rightarrow> ('k, 'a) CoalesceState \<times> ('m, 'k) world
     \<Rightarrow> ('k \<times> 'a) event list \<times> ('k, 'a) CoalesceState \<times> ('m, 'k) world" where
  "coalesceStep durationSelector (Next (c, n)) (s, w) =
     (if terminated s then ([], s, w)
      else case map_of (pending s) c of
             None \<Rightarrow>
               (let (t, w') = durationSelector w
                in ([], s\<lparr>pending := pending s @ [(c, n, t)]\<rparr>, subscribeTick t c w'))
           | Some (old, t) \<Rightarrow> ([], s\<lparr>pending := AList.update c (n, t) (pending s)\<rparr>, w))"
| "coalesceStep durationSelector (Boundary b) (s, w) =
     (if terminated s then ([Boundary b], s, w)
      else (Boundary b # forwarded (filter (\<lambda>(c, n, t). fires t = b) (pending s)),
            s\<lparr>pending := filter (\<lambda>(c, n, t). fires t \<noteq> b) (pending s)\<rparr>, w))"
| "coalesceStep durationSelector Complete (s, w) =
     (if terminated s then ([], s, w)
      else (forwarded (pending s) @ [Complete], s\<lparr>pending := [], terminated := True\<rparr>, w))"
| "coalesceStep durationSelector (Error e) (s, w) =
     (if terminated s then ([], s, w)
      else ([Error e], s\<lparr>pending := [], terminated := True\<rparr>, w))"

fun coalesceRun ::
  "(('m, 'k) world \<Rightarrow> tick_stream \<times> ('m, 'k) world) \<Rightarrow> ('k \<times> 'a) event list
     \<Rightarrow> ('k, 'a) CoalesceState \<times> ('m, 'k) world
     \<Rightarrow> ('k \<times> 'a) event list \<times> ('k, 'a) CoalesceState \<times> ('m, 'k) world" where
  "coalesceRun durationSelector [] sw = ([], sw)"
| "coalesceRun durationSelector (e # es) sw =
     (let (out, sw') = coalesceStep durationSelector e sw;
          (outs, sw'') = coalesceRun durationSelector es sw'
      in (out @ outs, sw''))"

definition coalesce ::
  "(('m, 'k) world \<Rightarrow> tick_stream \<times> ('m, 'k) world) \<Rightarrow> 'k CoalesceConfig
     \<Rightarrow> ('a, ('m, 'k) world) Observable \<Rightarrow> ('a, ('m, 'k) world) Observable" where
  "coalesce durationSelector config source =
     (\<lambda>w. let (timeline, w1) = source w;
               (out, s, w2) =
                 coalesceRun durationSelector
                   (map (map_event (Pair (context config))) timeline) (coalesceInit, w1)
           in (map (map_event snd) out, w2))"

subsection \<open>The local strategy and the registry\<close>

text \<open>The constant \<open>coalesceConfig\<close> of \<open>createLocalStrategy\<close>, with the \<open>inIvy\<close> it reads.\<close>

definition coalesceConfig ::
  "('m, 'k) StrategyFactoryConfig \<Rightarrow> bool \<Rightarrow> 'k CoalesceConfig" where
  "coalesceConfig cfg inIvy =
     \<lparr>context = (if inIvy then cdr_lView (cdRef cfg) else cdr_context (cdRef cfg))\<rparr>"

definition createLocalStrategy ::
  "('m, 'k) StrategyFactoryConfig \<Rightarrow> ('m, 'k) world \<Rightarrow> ('a, 'm, 'k) CdStrategy" where
  "createLocalStrategy cfg w0 =
     (let inIvy = isViewEngineIvy w0;
          durationSelector = getZoneUnPatchedDurationSelector ()
      in
      \<lparr>behaviour = (\<lambda>u. \<lambda>o'. coalesce durationSelector (coalesceConfig cfg inIvy) o'),
       render = (\<lambda>w. if \<not> inIvy then hostCall (CdRef_detectChanges (cdRef cfg)) w
                      else hostCall (Ivy_detectChanges (component cfg)) w),
       name = ''local''\<rparr>)"

text \<open>
  \<open>StrategySelection\<close> is an object used as a dictionary from names to strategies; \<open>getStrategies\<close>
  builds it as an object literal. The map below holds the own properties of that object: \<open>m k\<close> is
  \<open>Some s\<close> when the literal has the key \<open>k\<close>, and \<open>None\<close> otherwise.
\<close>

type_synonym ('a, 'm, 'k) StrategySelection = "string \<rightharpoonup> ('a, 'm, 'k) CdStrategy"

definition getStrategies ::
  "('m, 'k) StrategyFactoryConfig \<Rightarrow> ('m, 'k) world \<Rightarrow> ('a, 'm, 'k) StrategySelection" where
  "getStrategies cfg w =
     [''native'' \<mapsto> createNativeStrategy cfg,
      ''noop'' \<mapsto> createNoopStrategy (None :: unit option),
      ''global'' \<mapsto> createGlobalStrategy cfg w,
      ''local'' \<mapsto> createLocalStrategy cfg w]"

text \<open>
  Reading a property, \<open>r[k]\<close>, is more than a look at the own properties. An object literal
  inherits from \<open>Object.prototype\<close>, and a name that is not an own key is looked up there before
  the result is \<open>undefined\<close>. \<open>objectPrototype\<close> lists the members of \<open>Object.prototype\<close> that the
  language defines; \<open>getProperty\<close> is the lookup. It returns a value in every case and never
  raises.
\<close>

datatype ('a, 'm, 'k) property =
    Undefined
  | Strategy "('a, 'm, 'k) CdStrategy"
  | ObjectPrototypeMember string

definition objectPrototype :: "string list" where
  "objectPrototype =
     [''constructor'', ''hasOwnProperty'', ''isPrototypeOf'', ''propertyIsEnumerable'',
      ''toLocaleString'', ''toString'', ''valueOf'', ''__proto__'',
      ''__defineGetter__'', ''__defineSetter__'', ''__lookupGetter__'', ''__lookupSetter__'']"

definition getProperty :: "('a, 'm, 'k) StrategySelection \<Rightarrow> string \<Rightarrow> ('a, 'm, 'k) property" where
  "getProperty r k =
     (case r k of
        Some s \<Rightarrow> Strategy s
      | None \<Rightarrow> if k \<in> set objectPrototype then ObjectPrototypeMember k else Undefined)"

text \<open>Two auxiliary definitions for stating properties: the source that delivers a given timeline, and \<open>n\<close> successive calls of a tick-stream producer.\<close>

definition emits :: "'a event list \<Rightarrow> ('a, 'w) Observable" where
  "emits timeline = (\<lambda>w. (timeline, w))"

fun invoke :: "nat \<Rightarrow> ('w \<Rightarrow> tick_stream \<times> 'w) \<Rightarrow> 'w \<Rightarrow> tick_stream list \<times> 'w" where
  "invoke 0 producer w = ([], w)"
| "invoke (Suc n) producer w =
     (let (t, w') = producer w; (ts, w'') = invoke n producer w' in (t # ts, w''))"

section \<open>Properties\<close>

subsection \<open>Coalescing in the local strategy\<close>


lemma window_overwrites:
  "\<not> terminated s \<Longrightarrow> pending s = [(c, v, t)] \<Longrightarrow>
   coalesceRun sel (map (\<lambda>n. Next (c, n)) vs) (s, w) = ([], s\<lparr>pending := [(c, last (v # vs), t)]\<rparr>, w)"
proof (induction vs arbitrary: v s)
  case Nil
  then show ?case by simp
next
  case (Cons a vs)
  let ?s' = "s\<lparr>pending := [(c, a, t)]\<rparr>"
  have step: "coalesceStep sel (Next (c, a)) (s, w) = ([], ?s', w)"
    using Cons.prems by simp
  have "coalesceRun sel (map (\<lambda>n. Next (c, n)) vs) (?s', w) = ([], ?s'\<lparr>pending := [(c, last (a # vs), t)]\<rparr>, w)"
    by (rule Cons.IH) (use Cons.prems in simp_all)
  with step show ?case by simp
qed





subsection \<open>The duration selector\<close>

text \<open>
  The zone check is read in \<open>getResolvedPromise\<close> only, and there only while no promise is
  cached: once \<open>resolvedPromise\<close> is set, the call no longer depends on \<open>apiZonePatched\<close>.
  Nothing in the module calls \<open>getResolvedPromise\<close>.
\<close>

lemma getResolvedPromise_cached:
  "resolvedPromise w \<noteq> None \<Longrightarrow>
   getResolvedPromise w =
     (if ''Promise'' \<in> set (zoneSymbols w)
      then Inr (ZoneSymbolPromise, w\<lparr>resolvedPromise := Some ZoneSymbolPromise\<rparr>) else Inl TypeError)"
  by (simp add: getResolvedPromise_def)

text \<open>
  Claim C2, as stated, fails. In a world where the \<open>Promise\<close> constructor is zone-patched, the
  claim asks for the microtask-based tick source; the selector hands out the frame-based one.
\<close>

theorem selector_mode_counterexample:
  "\<not> (fires (fst (getZoneUnPatchedDurationSelector ()
          (\<lparr>viewEngineIvy = True, zoneSymbols = [''Promise''], resolvedPromise = None,
            tickStreams = 0, hostCalls = [], tickSubscriptions = []\<rparr> :: (unit, unit) world)))
       = (if apiZonePatched ''Promise''
               (\<lparr>viewEngineIvy = True, zoneSymbols = [''Promise''], resolvedPromise = None,
                 tickStreams = 0, hostCalls = [], tickSubscriptions = []\<rparr> :: (unit, unit) world)
          then Microtask else AnimationFrame))"
  by (simp add: getZoneUnPatchedDurationSelector_def generateFrames_def apiZonePatched_def)

text \<open>
  Claim C2, amended. Each time the duration selector is requested, the zone check is not
  consulted: the producer returns the frame-based tick source in every world, it leaves the
  zone symbols and the cached promise as they are, and changing either of the two changes
  nothing in what it returns.
\<close>

theorem selector_always_frames:
  "fires (fst (getZoneUnPatchedDurationSelector () w)) = AnimationFrame \<and>
   zoneSymbols (snd (getZoneUnPatchedDurationSelector () w)) = zoneSymbols w \<and>
   resolvedPromise (snd (getZoneUnPatchedDurationSelector () w)) = resolvedPromise w \<and>
   getZoneUnPatchedDurationSelector () (w\<lparr>zoneSymbols := z, resolvedPromise := p\<rparr>) =
     (fst (getZoneUnPatchedDurationSelector () w),
      (snd (getZoneUnPatchedDurationSelector () w))\<lparr>zoneSymbols := z, resolvedPromise := p\<rparr>)"
  by (simp add: getZoneUnPatchedDurationSelector_def generateFrames_def)

lemma invoke_generateFrames:
  "invoke n (getZoneUnPatchedDurationSelector ()) w =
     (map (\<lambda>i. \<lparr>streamId = i, fires = AnimationFrame\<rparr>) [tickStreams w ..< tickStreams w + n],
      w\<lparr>tickStreams := tickStreams w + n\<rparr>)"
proof (induction n arbitrary: w)
  case 0
  then show ?case by simp
next
  case (Suc n)
  let ?w = "w\<lparr>tickStreams := Suc (tickStreams w)\<rparr>"
  have step: "getZoneUnPatchedDurationSelector () w = (\<lparr>streamId = tickStreams w, fires = AnimationFrame\<rparr>, ?w)"
    by (simp add: getZoneUnPatchedDurationSelector_def generateFrames_def)
  have range: "[tickStreams w ..< tickStreams w + Suc n] = tickStreams w # [tickStreams ?w ..< tickStreams ?w + n]"
    by (simp add: upt_conv_Cons del: upt_Suc)
  show ?case
    unfolding range by (simp add: step Suc.IH [of ?w] del: upt_Suc)
qed

text \<open>
  Claim C8. The factory is nullary, and so is the producer it returns. Every invocation of the
  producer constructs a tick stream of its own: \<open>n\<close> successive invocations yield \<open>n\<close> streams with
  pairwise distinct identities, none of them constructed before, all ticking at animation
  frames. No stream is handed out twice, so two coalescing scopes never wait on the same one.
\<close>

theorem selector_streams_are_fresh:
  "map streamId (fst (invoke n (getZoneUnPatchedDurationSelector ()) w)) = [tickStreams w ..< tickStreams w + n] \<and>
   distinct (map streamId (fst (invoke n (getZoneUnPatchedDurationSelector ()) w))) \<and>
   map fires (fst (invoke n (getZoneUnPatchedDurationSelector ()) w)) = replicate n AnimationFrame"
proof -
  have ids: "map streamId (fst (invoke n (getZoneUnPatchedDurationSelector ()) w)) = [tickStreams w ..< tickStreams w + n]"
    by (simp add: invoke_generateFrames comp_def)
  have "map fires (fst (invoke n (getZoneUnPatchedDurationSelector ()) w)) = replicate n AnimationFrame"
    by (simp add: invoke_generateFrames comp_def map_replicate_const)
  with ids show ?thesis by simp
qed

subsection \<open>Behaviour and rendering of the strategies\<close>

text \<open>
  Claim C3. The behaviours of the native, noop and global strategies are the identity: applied
  to any source they return that source, so every notification (and every other entry of its
  timeline) comes out unchanged and in order. The three behaviours are one and the same
  transform; what is left to tell the strategies apart in use is \<open>render\<close>.
\<close>

theorem identity_strategies_pass_through:
  "behaviour (createNativeStrategy cfg) () source = source \<and>
   behaviour (createNoopStrategy a) () source = source \<and>
   behaviour (createGlobalStrategy cfg w0) () source = source \<and>
   behaviour (createNativeStrategy cfg) () (emits timeline) w = (timeline, w) \<and>
   behaviour (createNoopStrategy a) () (emits timeline) w = (timeline, w) \<and>
   behaviour (createGlobalStrategy cfg w0) () (emits timeline) w = (timeline, w) \<and>
   behaviour (createNoopStrategy a) = behaviour (createNativeStrategy cfg) \<and>
   behaviour (createGlobalStrategy cfg w0) = behaviour (createNativeStrategy cfg)"
  by (simp add: createNativeStrategy_def createNoopStrategy_def createGlobalStrategy_def emits_def)

text \<open>
  Claim C10. \<open>createNoopStrategy\<close> ignores its argument: whatever is passed, or nothing, the
  strategy is the same. Its \<open>render\<close> leaves the world as it is (no host call is made), its
  behaviour is the identity, and neither construction nor use reads a configuration or the
  ambient world.
\<close>

theorem noop_ignores_config:
  "(createNoopStrategy (a :: 'x option) :: ('a, 'm, 'k) CdStrategy) = createNoopStrategy (None :: unit option) \<and>
   render (createNoopStrategy a :: ('a, 'm, 'k) CdStrategy) w = w \<and>
   behaviour (createNoopStrategy a :: ('a, 'm, 'k) CdStrategy) () source = source \<and>
   name (createNoopStrategy a :: ('a, 'm, 'k) CdStrategy) = ''noop''"
  by (simp add: createNoopStrategy_def)

text \<open>
  Claim C5. The host function that \<open>render\<close> calls is chosen by the engine flag read once, when
  the strategy is constructed in world \<open>w0\<close>: the global strategy marks for check under the legacy
  engine and marks the component dirty under the current one; the local strategy detects
  changes on the \<open>cdRef\<close> under the legacy engine and on the component under the current one.
  A later \<open>render\<close>, in any world \<open>w\<close>, makes exactly that call; the engine flag of the world it
  runs in plays no part.
\<close>

theorem render_variant_fixed_at_construction:
  "render (createGlobalStrategy cfg w0) w =
     w\<lparr>hostCalls := hostCalls w @
        [if isViewEngineIvy w0 then Ivy_markDirty (component cfg) else CdRef_markForCheck (cdRef cfg)]\<rparr> \<and>
   render (createLocalStrategy cfg w0) w =
     w\<lparr>hostCalls := hostCalls w @
        [if isViewEngineIvy w0 then Ivy_detectChanges (component cfg) else CdRef_detectChanges (cdRef cfg)]\<rparr> \<and>
   render (createGlobalStrategy cfg w0) (w\<lparr>viewEngineIvy := b\<rparr>) =
     (render (createGlobalStrategy cfg w0) w)\<lparr>viewEngineIvy := b\<rparr> \<and>
   render (createLocalStrategy cfg w0) (w\<lparr>viewEngineIvy := b\<rparr>) =
     (render (createLocalStrategy cfg w0) w)\<lparr>viewEngineIvy := b\<rparr>"
  by (simp add: createGlobalStrategy_def createLocalStrategy_def hostCall_def Let_def)

lemma window_stays_open:
  assumes "\<not> terminated s" "pending s = []"
  shows "coalesceRun (getZoneUnPatchedDurationSelector ()) (map (\<lambda>n. Next (c, n)) (v # vs)) (s, w)
       = ([], s\<lparr>pending := [(c, last (v # vs), \<lparr>streamId = tickStreams w, fires = AnimationFrame\<rparr>)]\<rparr>,
          w\<lparr>tickStreams := Suc (tickStreams w),
            tickSubscriptions := tickSubscriptions w @ [(tickStreams w, c)]\<rparr>)"
proof -
  let ?t = "\<lparr>streamId = tickStreams w, fires = AnimationFrame\<rparr>"
  let ?w = "w\<lparr>tickStreams := Suc (tickStreams w),
              tickSubscriptions := tickSubscriptions w @ [(tickStreams w, c)]\<rparr>"
  let ?s1 = "s\<lparr>pending := [(c, v, ?t)]\<rparr>"
  have first: "coalesceStep (getZoneUnPatchedDurationSelector ()) (Next (c, v)) (s, w) = ([], ?s1, ?w)"
    using assms
    by (simp add: getZoneUnPatchedDurationSelector_def generateFrames_def subscribeTick_def)
  have rest: "coalesceRun (getZoneUnPatchedDurationSelector ()) (map (\<lambda>n. Next (c, n)) vs) (?s1, ?w)
      = ([], ?s1\<lparr>pending := [(c, last (v # vs), ?t)]\<rparr>, ?w)"
    by (rule window_overwrites) (use assms(1) in simp_all)
  show ?thesis
    using first rest by simp
qed

text \<open>
  Claim C6. The local strategy derives the context key of its coalescing from the \<open>cdRef\<close>: the
  \<open>_lView\<close> field when the current engine was active at construction, the \<open>context\<close> field
  otherwise. The key shows in what the behaviour does: when the first notification of a window
  arrives, the tick subscription is opened on behalf of exactly that key, whatever the engine
  flag is in the world the stream runs in. The key is fixed with the strategy; the caller
  supplies none, and the component of the configuration plays no part in it.
\<close>

theorem local_context_key_from_cdRef:
  "snd (behaviour (createLocalStrategy cfg w0) () (emits (map Next (v # vs))) w) =
     w\<lparr>tickStreams := Suc (tickStreams w),
       tickSubscriptions := tickSubscriptions w @
         [(tickStreams w,
           if isViewEngineIvy w0 then cdr_lView (cdRef cfg) else cdr_context (cdRef cfg))]\<rparr> \<and>
   behaviour (createLocalStrategy cfg w0) () =
     coalesce (getZoneUnPatchedDurationSelector ()) (coalesceConfig cfg (isViewEngineIvy w0)) \<and>
   context (coalesceConfig cfg True) = cdr_lView (cdRef cfg) \<and>
   context (coalesceConfig cfg False) = cdr_context (cdRef cfg) \<and>
   coalesceConfig (cfg\<lparr>component := m\<rparr>) inIvy = coalesceConfig cfg inIvy"
proof -
  let ?c = "context (coalesceConfig cfg (isViewEngineIvy w0))"
  have key: "?c = (if isViewEngineIvy w0 then cdr_lView (cdRef cfg) else cdr_context (cdRef cfg))"
    by (simp add: coalesceConfig_def)
  have tag: "map (map_event (Pair ?c)) (map Next (v # vs)) = map (\<lambda>n. Next (?c, n)) (v # vs)"
    by simp
  have run: "coalesceRun (getZoneUnPatchedDurationSelector ()) (map (\<lambda>n. Next (?c, n)) (v # vs)) (coalesceInit, w)
       = ([], coalesceInit\<lparr>pending := [(?c, last (v # vs), \<lparr>streamId = tickStreams w, fires = AnimationFrame\<rparr>)]\<rparr>,
          w\<lparr>tickStreams := Suc (tickStreams w),
            tickSubscriptions := tickSubscriptions w @ [(tickStreams w, ?c)]\<rparr>)"
    by (rule window_stays_open) (simp_all add: coalesceInit_def)
  have "snd (behaviour (createLocalStrategy cfg w0) () (emits (map Next (v # vs))) w) =
     w\<lparr>tickStreams := Suc (tickStreams w),
       tickSubscriptions := tickSubscriptions w @ [(tickStreams w, ?c)]\<rparr>"
    unfolding createLocalStrategy_def coalesce_def emits_def Let_def
    by (simp only: CdStrategy.simps split_conv tag run snd_conv)
  then show ?thesis
    unfolding key by (simp add: createLocalStrategy_def coalesceConfig_def Let_def)
qed

theorem local_context_key_from_cdRef_witness:
  "tickSubscriptions (snd (behaviour
       (createLocalStrategy \<lparr>component = (), cdRef = \<lparr>cdr_lView = (1::nat), cdr_context = 2\<rparr>\<rparr>
          \<lparr>viewEngineIvy = True, zoneSymbols = [], resolvedPromise = None, tickStreams = 0, hostCalls = [], tickSubscriptions = []\<rparr>) ()
       (emits [Next (7::nat)])
       \<lparr>viewEngineIvy = False, zoneSymbols = [], resolvedPromise = None, tickStreams = 0, hostCalls = [], tickSubscriptions = []\<rparr>))
     = [(0, 1)] \<and>
   tickSubscriptions (snd (behaviour
       (createLocalStrategy \<lparr>component = (), cdRef = \<lparr>cdr_lView = (1::nat), cdr_context = 2\<rparr>\<rparr>
          \<lparr>viewEngineIvy = False, zoneSymbols = [], resolvedPromise = None, tickStreams = 0, hostCalls = [], tickSubscriptions = []\<rparr>) ()
       (emits [Next (7::nat)])
       \<lparr>viewEngineIvy = True, zoneSymbols = [], resolvedPromise = None, tickStreams = 0, hostCalls = [], tickSubscriptions = []\<rparr>))
     = [(0, 2)]"
proof -
  note a = local_context_key_from_cdRef [THEN conjunct1,
      of "\<lparr>component = (), cdRef = \<lparr>cdr_lView = (1::nat), cdr_context = 2\<rparr>\<rparr>"
         "\<lparr>viewEngineIvy = True, zoneSymbols = [], resolvedPromise = None, tickStreams = 0, hostCalls = [], tickSubscriptions = []\<rparr>"
         "7::nat" "[]"
         "\<lparr>viewEngineIvy = False, zoneSymbols = [], resolvedPromise = None, tickStreams = 0, hostCalls = [], tickSubscriptions = []\<rparr>"]
  note b = local_context_key_from_cdRef [THEN conjunct1,
      of "\<lparr>component = (), cdRef = \<lparr>cdr_lView = (1::nat), cdr_context = 2\<rparr>\<rparr>"
         "\<lparr>viewEngineIvy = False, zoneSymbols = [], resolvedPromise = None, tickStreams = 0, hostCalls = [], tickSubscriptions = []\<rparr>"
         "7::nat" "[]"
         "\<lparr>viewEngineIvy = True, zoneSymbols = [], resolvedPromise = None, tickStreams = 0, hostCalls = [], tickSubscriptions = []\<rparr>"]
  show ?thesis
    using a b by (simp add: isViewEngineIvy_def)
qed

subsection \<open>The registry\<close>

text \<open>
  Claim C4, as stated, fails. \<open>toString\<close> is none of the four names, yet looking it up in the
  object that \<open>getStrategies\<close> returns does not yield \<open>undefined\<close>: the object literal inherits
  the member from \<open>Object.prototype\<close>.
\<close>

theorem registry_lookup_counterexample:
  "''toString'' \<notin> {''native'', ''noop'', ''global'', ''local''} \<and>
   getProperty
     (getStrategies \<lparr>component = (), cdRef = \<lparr>cdr_lView = (), cdr_context = ()\<rparr>\<rparr>
        \<lparr>viewEngineIvy = True, zoneSymbols = [], resolvedPromise = None, tickStreams = 0, hostCalls = [], tickSubscriptions = []\<rparr>
       :: (nat, unit, unit) StrategySelection)
     ''toString'' \<noteq> Undefined"
  by (simp add: getProperty_def getStrategies_def objectPrototype_def)

text \<open>
  Claim C4, amended. For every configuration the object returned by \<open>getStrategies\<close> has own
  entries for exactly the four names \<open>native\<close>, \<open>noop\<close>, \<open>global\<close>, \<open>local\<close>, and looking one of them
  up yields its strategy. Looking up any other name that is not a member of \<open>Object.prototype\<close>
  yields \<open>undefined\<close>. The lookup returns a value in every case; it never raises.
\<close>

theorem registry_own_names_and_lookup:
  "dom (getStrategies cfg w) = {''native'', ''noop'', ''global'', ''local''} \<and>
   getProperty (getStrategies cfg w) ''native'' = Strategy (createNativeStrategy cfg) \<and>
   getProperty (getStrategies cfg w) ''noop'' = Strategy (createNoopStrategy (None :: unit option)) \<and>
   getProperty (getStrategies cfg w) ''global'' = Strategy (createGlobalStrategy cfg w) \<and>
   getProperty (getStrategies cfg w) ''local'' = Strategy (createLocalStrategy cfg w) \<and>
   (k \<notin> {''native'', ''noop'', ''global'', ''local''} \<longrightarrow> k \<notin> set objectPrototype \<longrightarrow>
      getProperty (getStrategies cfg w) k = Undefined)"
proof -
  have "dom (getStrategies cfg w) = {''native'', ''noop'', ''global'', ''local''}"
    by (auto simp add: getStrategies_def)
  moreover have "k \<notin> {''native'', ''noop'', ''global'', ''local''} \<longrightarrow> k \<notin> set objectPrototype \<longrightarrow>
      getProperty (getStrategies cfg w) k = Undefined"
    by (simp add: getProperty_def getStrategies_def)
  ultimately show ?thesis
    by (simp add: getProperty_def getStrategies_def)
qed

theorem registry_own_names_and_lookup_witness:
  "''push'' \<notin> {''native'', ''noop'', ''global'', ''local''} \<and> ''push'' \<notin> set objectPrototype \<and>
   getProperty
     (getStrategies \<lparr>component = (), cdRef = \<lparr>cdr_lView = (), cdr_context = ()\<rparr>\<rparr>
        \<lparr>viewEngineIvy = True, zoneSymbols = [], resolvedPromise = None, tickStreams = 0, hostCalls = [], tickSubscriptions = []\<rparr>
       :: (nat, unit, unit) StrategySelection)
     ''push'' = Undefined"
proof -
  have a: "''push'' \<notin> {''native'', ''noop'', ''global'', ''local''}" by simp
  have b: "''push'' \<notin> set objectPrototype" by (simp add: objectPrototype_def)
  have c: "getProperty
     (getStrategies \<lparr>component = (), cdRef = \<lparr>cdr_lView = (), cdr_context = ()\<rparr>\<rparr>
        \<lparr>viewEngineIvy = True, zoneSymbols = [], resolvedPromise = None, tickStreams = 0, hostCalls = [], tickSubscriptions = []\<rparr>
       :: (nat, unit, unit) StrategySelection)
     ''push'' = Undefined"
    by (rule registry_own_names_and_lookup [THEN conjunct2, THEN conjunct2, THEN conjunct2,
          THEN conjunct2, THEN conjunct2, THEN mp, THEN mp, OF a b])
  from a b c show ?thesis by simp
qed

text \<open>
  Claim C7. The registry always has a \<open>native\<close> entry, the native strategy of the given
  configuration, and the default strategy name is \<open>local\<close>, which is not \<open>native\<close>.
\<close>

theorem registry_native_and_default_name:
  "getStrategies cfg w ''native'' = Some (createNativeStrategy cfg) \<and>
   DEFAULT_STRATEGY_NAME = ''local'' \<and> DEFAULT_STRATEGY_NAME \<noteq> ''native''"
  by (simp add: getStrategies_def DEFAULT_STRATEGY_NAME_def)

text \<open>
  Claim C9. Every entry of the registry is stored under its own name: if \<open>k\<close> maps to the
  strategy \<open>s\<close>, then the \<open>name\<close> field of \<open>s\<close> is \<open>k\<close>.
\<close>

theorem registry_names_match_keys:
  "getStrategies cfg w k = Some s \<Longrightarrow> name s = k"
  by (auto simp add: getStrategies_def createNativeStrategy_def createNoopStrategy_def
        createGlobalStrategy_def createLocalStrategy_def Let_def split: if_splits)

theorem registry_names_match_keys_witness:
  "(getStrategies \<lparr>component = (), cdRef = \<lparr>cdr_lView = (), cdr_context = ()\<rparr>\<rparr>
      \<lparr>viewEngineIvy = True, zoneSymbols = [], resolvedPromise = None, tickStreams = 0, hostCalls = [], tickSubscriptions = []\<rparr>
      ''local'' :: (nat, unit, unit) CdStrategy option) =
     Some (createLocalStrategy \<lparr>component = (), cdRef = \<lparr>cdr_lView = (), cdr_context = ()\<rparr>\<rparr>
      \<lparr>viewEngineIvy = True, zoneSymbols = [], resolvedPromise = None, tickStreams = 0, hostCalls = [], tickSubscriptions = []\<rparr>) \<and>
   name (createLocalStrategy \<lparr>component = (), cdRef = \<lparr>cdr_lView = (), cdr_context = ()\<rparr>\<rparr>
      \<lparr>viewEngineIvy = True, zoneSymbols = [], resolvedPromise = None, tickStreams = 0, hostCalls = [], tickSubscriptions = []\<rparr>
        :: (nat, unit, unit) CdStrategy) = ''local''"
proof -
  have h: "(getStrategies \<lparr>component = (), cdRef = \<lparr>cdr_lView = (), cdr_context = ()\<rparr>\<rparr>
      \<lparr>viewEngineIvy = True, zoneSymbols = [], resolvedPromise = None, tickStreams = 0, hostCalls = [], tickSubscriptions = []\<rparr>
      ''local'' :: (nat, unit, unit) CdStrategy option) =
     Some (createLocalStrategy \<lparr>component = (), cdRef = \<lparr>cdr_lView = (), cdr_context = ()\<rparr>\<rparr>
      \<lparr>viewEngineIvy = True, zoneSymbols = [], resolvedPromise = None, tickStreams = 0, hostCalls = [], tickSubscriptions = []\<rparr>)"
    by (simp add: getStrategies_def)
  show ?thesis using h registry_names_match_keys [OF h] by simp
qed

end
